theory Spec2Isabelle
  imports Main
begin

section \<open>The GPG agent of trezor-agent: wire codec\<close>

text \<open>
  The embedding follows \<^verbatim>\<open>src/trezor_agent/gpg/agent.py\<close>, which is Python 2: a
  \<^verbatim>\<open>str\<close> is a byte string and goes to the socket as it is. Byte strings are
  \<^typ>\<open>string\<close> (lists of 8-bit characters), Python integers are \<^typ>\<open>int\<close>, a value
  that may be \<^verbatim>\<open>None\<close> is an \<open>option\<close>, an exception is the left summand of a sum
  type.
\<close>

datatype error =
    EOFError
  | AssertionError
  | ValueError
  | TypeError
  | IndexError
  | KeyError
  | OverflowError
  | HexError
  | CollaboratorError nat

abbreviation LF :: char where
  "LF \<equiv> CHR 0x0A"

abbreviation CR :: char where
  "CR \<equiv> CHR 0x0D"

subsection \<open>serialize\<close>

text \<open>
  One uppercase hexadecimal digit, and \<^verbatim>\<open>'{:02X}'.format(n)\<close>: uppercase hexadecimal,
  padded with zeros to at least two digits.
\<close>

definition hex_digit_upper :: "nat \<Rightarrow> char" where
  "hex_digit_upper d = ''0123456789ABCDEF'' ! (d mod 16)"

fun hex_upper :: "nat \<Rightarrow> string" where
  "hex_upper n =
     (if n < 16 then [hex_digit_upper n]
      else hex_upper (n div 16) @ [hex_digit_upper (n mod 16)])"

definition format_02X :: "nat \<Rightarrow> string" where
  "format_02X n = (if n < 16 then CHR ''0'' # hex_upper n else hex_upper n)"

text \<open>
  \<^verbatim>\<open>data.replace(c, new)\<close> for a pattern \<open>c\<close> of one character: every occurrence of
  \<open>c\<close> gives way to \<open>new\<close>, left to right, and the inserted text is not scanned again.
\<close>

fun replace :: "string \<Rightarrow> char \<Rightarrow> string \<Rightarrow> string" where
  "replace [] c new = []"
| "replace (x # xs) c new = (if x = c then new @ replace xs c new else x # replace xs c new)"

text \<open>
  \<^verbatim>\<open>
  def serialize(data):
      for c in ['%', '\n', '\r']:
          data = data.replace(c, '%{:02X}'.format(ord(c)))
      return data
  \<close>
\<close>

definition serialize :: "string \<Rightarrow> string" where
  "serialize data =
     fold (\<lambda>c data. replace data c (CHR ''%'' # format_02X (of_char c)))
       [CHR ''%'', LF, CR] data"

text \<open>
  The escape function in the words of the specification: one pass over the original
  text, each reserved character replaced by \<open>%XX\<close>.
\<close>

definition Escape_spec :: "string \<Rightarrow> string" where
  "Escape_spec text =
     concat (map (\<lambda>c. if c = CHR ''%'' \<or> c = LF \<or> c = CR
                        then CHR ''%'' # format_02X (of_char c) else [c]) text)"


subsection \<open>sig_encode\<close>

text \<open>
  Modelled from the spec: \<^verbatim>\<open>util.num2bytes\<close> is not among the sources. The
  specification describes its result as the unsigned integer in big-endian order on a
  fixed number of bytes (32 for a signature); a value that does not fit in that many bytes
  is modelled as a failure.
\<close>

fun be_bytes :: "nat \<Rightarrow> nat \<Rightarrow> string" where
  "be_bytes 0 v = []"
| "be_bytes (Suc n) v = be_bytes n (v div 256) @ [char_of (v mod 256)]"

definition num2bytes :: "int \<Rightarrow> nat \<Rightarrow> error + string" where
  "num2bytes v n =
     (if 0 \<le> v \<and> v < 256 ^ n then Inr (be_bytes n (nat v)) else Inl OverflowError)"

text \<open>
  \<^verbatim>\<open>
  def sig_encode(r, s):
      r = serialize(util.num2bytes(r, 32))
      s = serialize(util.num2bytes(s, 32))
      return '(7:sig-val(5:ecdsa(1:r32:{})(1:s32:{})))\n'.format(r, s)
  \<close>
\<close>

definition sig_encode :: "int \<Rightarrow> int \<Rightarrow> error + string" where
  "sig_encode r s =
     (case num2bytes r 32 of
        Inl e \<Rightarrow> Inl e
      | Inr rb \<Rightarrow>
          (case num2bytes s 32 of
             Inl e \<Rightarrow> Inl e
           | Inr sb \<Rightarrow>
               Inr (''(7:sig-val(5:ecdsa(1:r32:'' @ serialize rb @ '')(1:s32:''
                    @ serialize sb @ '')))'' @ [LF])))"

section \<open>The signing procedure\<close>

subsection \<open>binascii.unhexlify\<close>

text \<open>
  The standard library's \<^verbatim>\<open>binascii.unhexlify\<close>: two hexadecimal digits of either case
  per byte; an odd length or a character that is no hexadecimal digit raises
  (\<open>HexError\<close>), and so does an argument that is \<^verbatim>\<open>None\<close> (\<open>TypeError\<close>).
\<close>

definition hex_value :: "char \<Rightarrow> nat option" where
  "hex_value c =
     (let n = (of_char c :: nat) in
      if 48 \<le> n \<and> n \<le> 57 then Some (n - 48)
      else if 65 \<le> n \<and> n \<le> 70 then Some (n - 55)
      else if 97 \<le> n \<and> n \<le> 102 then Some (n - 87)
      else None)"

fun unhexlify :: "string \<Rightarrow> error + string" where
  "unhexlify [] = Inr []"
| "unhexlify [a] = Inl HexError"
| "unhexlify (a # b # rest) =
     (case (hex_value a, hex_value b) of
        (Some x, Some y) \<Rightarrow>
          (case unhexlify rest of
             Inl e \<Rightarrow> Inl e
           | Inr bs \<Rightarrow> Inr (char_of (16 * x + y) # bs))
      | _ \<Rightarrow> Inl HexError)"

definition unhexlify_opt :: "string option \<Rightarrow> error + string" where
  "unhexlify_opt h = (case h of None \<Rightarrow> Inl TypeError | Some hs \<Rightarrow> unhexlify hs)"

subsection \<open>Collaborators and observable events\<close>

text \<open>
  The key registry (\<^verbatim>\<open>keyring.export_public_key\<close>), the key parser
  (\<^verbatim>\<open>decode.load_public_key\<close>) and the signing device
  (\<^verbatim>\<open>encode.Factory\<close>) are not among the sources: they are parameters. A parsed public
  key is a dictionary; a factory offers the keygrip of its key (\<^verbatim>\<open>f.pubkey.keygrip\<close>)
  and the device's signing call (\<^verbatim>\<open>f.conn.sign\<close>).
\<close>

record factory =
  f_keygrip :: string
  f_sign :: "string \<Rightarrow> error + int \<times> int"

record env =
  export_public_key :: "string option \<Rightarrow> error + string"
  load_public_key :: "string \<Rightarrow> bool \<Rightarrow> error + (string \<rightharpoonup> string)"
  from_public_key :: "(string \<rightharpoonup> string) \<Rightarrow> string \<Rightarrow> error + factory"

text \<open>
  What a run does to the outside world, in order: bytes sent to and lines read from the
  client, records written to the log at error level (\<open>main\<close> sets the level to INFO, so
  debug records leave no trace), calls to the collaborators with their arguments, and the
  accept and close of a connection.
\<close>

datatype event =
    Accept
  | Close_conn
  | Send string
  | Recv string
  | Log_error string string
  | Export_public_key "string option"
  | Load_public_key string bool
  | From_public_key string
  | Sign string
  | Close_factory

text \<open>
  A computation that may raise: the events up to its end, and the exception or the value.
\<close>

type_synonym 'a act = "event list \<times> (error + 'a)"

definition lift :: "error + 'a \<Rightarrow> 'a act" where
  "lift r = ([], r)"

definition call :: "event \<Rightarrow> error + 'a \<Rightarrow> 'a act" where
  "call ev r = ([ev], r)"

definition py_assert :: "bool \<Rightarrow> unit act" where
  "py_assert b = (if b then ([], Inr ()) else ([], Inl AssertionError))"

definition subscript :: "(string \<rightharpoonup> string) \<Rightarrow> string \<Rightarrow> string act" where
  "subscript d k = (case d k of None \<Rightarrow> ([], Inl KeyError) | Some v \<Rightarrow> ([], Inr v))"

definition bnd :: "'a act \<Rightarrow> ('a \<Rightarrow> 'b act) \<Rightarrow> 'b act" where
  "bnd m k =
     (case m of
        (t, Inl e) \<Rightarrow> (t, Inl e)
      | (t, Inr x) \<Rightarrow> (case k x of (t', r) \<Rightarrow> (t @ t', r)))"

text \<open>\<^verbatim>\<open>with contextlib.closing(f)\<close>: the factory is closed however the block ends.\<close>

definition closing :: "'a act \<Rightarrow> 'a act" where
  "closing m = (case m of (t, r) \<Rightarrow> (t @ [Close_factory], r))"

subsection \<open>pksign\<close>

text \<open>
  \<^verbatim>\<open>
  def pksign(keygrip, digest, algo):
      assert algo == '8'
      pubkey = decode.load_public_key(keyring.export_public_key(user_id=None),
                                      use_custom=True)
      f = encode.Factory.from_public_key(pubkey=pubkey,
                                         user_id=pubkey['user_id'])
      with contextlib.closing(f):
          assert f.pubkey.keygrip == binascii.unhexlify(keygrip)
          r, s = f.conn.sign(binascii.unhexlify(digest))
          result = sig_encode(r, s)
          log.debug('result: %r', result)
          return result
  \<close>
\<close>

definition pksign :: "env \<Rightarrow> string option \<Rightarrow> string option \<Rightarrow> string option \<Rightarrow> string act" where
  "pksign env keygrip digest algo =
     bnd (py_assert (algo = Some ''8'')) (\<lambda>_.
     bnd (call (Export_public_key None) (export_public_key env None)) (\<lambda>blob.
     bnd (call (Load_public_key blob True) (load_public_key env blob True)) (\<lambda>pubkey.
     bnd (subscript pubkey ''user_id'') (\<lambda>user_id.
     bnd (call (From_public_key user_id) (from_public_key env pubkey user_id)) (\<lambda>f.
     closing (
       bnd (lift (unhexlify_opt keygrip)) (\<lambda>kg.
       bnd (py_assert (f_keygrip f = kg)) (\<lambda>_.
       bnd (lift (unhexlify_opt digest)) (\<lambda>d.
       bnd (call (Sign d) (f_sign f d)) (\<lambda>(r, s).
       lift (sig_encode r s)))))))))))"

section \<open>The session\<close>

text \<open>The three local variables of \<open>handle_connection\<close>; \<^verbatim>\<open>None\<close> is \<open>None\<close>.\<close>

record session =
  keygrip :: "string option"
  digest :: "string option"
  algo :: "string option"

text \<open>\<^verbatim>\<open>line.split(' ')\<close>: the pieces between single spaces, always at least one.\<close>

fun split :: "string \<Rightarrow> string list" where
  "split [] = [[]]"
| "split (c # cs) =
     (if c = CHR '' '' then [] # split cs
      else (case split cs of [] \<Rightarrow> [[c]] | p # ps \<Rightarrow> (c # p) # ps))"

abbreviation OK :: string where
  "OK \<equiv> [CHR ''O'', CHR ''K'', LF]"

text \<open>How one turn of the loop ends: on to the next line, or \<^verbatim>\<open>return\<close>.\<close>

datatype flow = Continue | Return

text \<open>
  One turn of the loop once the line is read (source lines 61 to 81): the chain of
  branches, then the \<open>OK\<close> line unless the turn has raised or returned. The result
  holds the events, the session variables as the turn leaves them, and the exception or
  the way the turn ends. A tuple assignment of the wrong length raises \<open>ValueError\<close>
  before any variable is assigned.

  \<^verbatim>\<open>
  parts = line.split(' ')
  command = parts[0]
  args = parts[1:]
  if command in {'RESET', 'OPTION', 'HAVEKEY', 'SETKEYDESC'}:
      pass  # reply with OK
  elif command == 'GETINFO':
      conn.sendall('D 2.1.11\n')
  elif command == 'AGENT_ID':
      conn.sendall('D TREZOR\n')
  elif command == 'SIGKEY':
      keygrip, = args
  elif command == 'SETHASH':
      algo, digest = args
  elif command == 'PKSIGN':
      sig = pksign(keygrip, digest, algo)
      conn.sendall('D ' + sig)
  else:
      log.error('unknown request: %r', line)
      return

  conn.sendall('OK\n')
  \<close>
\<close>

definition handle_line :: "env \<Rightarrow> session \<Rightarrow> string \<Rightarrow> event list \<times> session \<times> (error + flow)" where
  "handle_line env st line =
     (case split line of
        [] \<Rightarrow> ([], st, Inl IndexError)
      | command # args \<Rightarrow>
          (case
             (if command \<in> {''RESET'', ''OPTION'', ''HAVEKEY'', ''SETKEYDESC''} then
                ([], st, Inr Continue)
              else if command = ''GETINFO'' then
                ([Send (''D 2.1.11'' @ [LF])], st, Inr Continue)
              else if command = ''AGENT_ID'' then
                ([Send (''D TREZOR'' @ [LF])], st, Inr Continue)
              else if command = ''SIGKEY'' then
                (case args of
                   [k] \<Rightarrow> ([], st\<lparr>keygrip := Some k\<rparr>, Inr Continue)
                 | _ \<Rightarrow> ([], st, Inl ValueError))
              else if command = ''SETHASH'' then
                (case args of
                   [a, d] \<Rightarrow> ([], st\<lparr>algo := Some a, digest := Some d\<rparr>, Inr Continue)
                 | _ \<Rightarrow> ([], st, Inl ValueError))
              else if command = ''PKSIGN'' then
                (case pksign env (keygrip st) (digest st) (algo st) of
                   (t, Inl e) \<Rightarrow> (t, st, Inl e)
                 | (t, Inr sig) \<Rightarrow> (t @ [Send (''D '' @ sig)], st, Inr Continue))
              else
                ([Log_error ''unknown request: %r'' line], st, Inr Return))
           of
             (t, st', Inr Continue) \<Rightarrow> (t @ [Send OK], st', Inr Continue)
           | (t, st', r) \<Rightarrow> (t, st', r)))"

text \<open>
  Modelled from the spec: \<^verbatim>\<open>keyring.recvline\<close> is not among the sources. By the
  specification it blocks until a full line has arrived and hands it over, and a client
  that disconnects during the read is an end-of-input condition (\<open>EOFError\<close>). The
  inbound side of a connection is the list of the lines the client sends before it
  disconnects.

  \<^verbatim>\<open>
  while True:
      line = keyring.recvline(conn)
      ...
  \<close>
\<close>

fun handle_loop :: "env \<Rightarrow> session \<Rightarrow> string list \<Rightarrow> event list \<times> session \<times> (error + unit)" where
  "handle_loop env st [] = ([], st, Inl EOFError)"
| "handle_loop env st (line # rest) =
     (case handle_line env st line of
        (t, st', Inl e) \<Rightarrow> (Recv line # t, st', Inl e)
      | (t, st', Inr Return) \<Rightarrow> (Recv line # t, st', Inr ())
      | (t, st', Inr Continue) \<Rightarrow>
          (case handle_loop env st' rest of
             (t', st'', r) \<Rightarrow> (Recv line # t @ t', st'', r)))"

definition handle_connection :: "env \<Rightarrow> string list \<Rightarrow> event list \<times> session \<times> (error + unit)" where
  "handle_connection env lines =
     (case handle_loop env \<lparr>keygrip = None, digest = None, algo = None\<rparr> lines of
        (t, st, r) \<Rightarrow> (Send OK # t, st, r))"

section \<open>The server loop\<close>

text \<open>
  How \<open>main\<close> stands once the given connections are dealt with: blocked in
  \<^verbatim>\<open>sock.accept()\<close> for the next client, returned after leaving the loop, or ended by an
  exception that nothing caught.
\<close>

datatype main_end = Waiting | Stopped | Crashed error

text \<open>
  \<^verbatim>\<open>
  for conn in yield_connections(sock):
      with contextlib.closing(conn):
          try:
              handle_connection(conn)
          except EOFError:
              break
  \<close>
  The argument lists the connections in the order the clients arrive, each by the lines
  it sends.
\<close>

fun main :: "env \<Rightarrow> string list list \<Rightarrow> event list \<times> main_end" where
  "main env [] = ([], Waiting)"
| "main env (conn # conns) =
     (case handle_connection env conn of
        (t, st, Inl e) \<Rightarrow>
          (Accept # t @ [Close_conn], if e = EOFError then Stopped else Crashed e)
      | (t, st, Inr u) \<Rightarrow>
          (case main env conns of (t', r) \<Rightarrow> (Accept # t @ Close_conn # t', r)))"

text \<open>A test double for the collaborators: one key, a device that signs with (0, 0).\<close>

definition demo_env :: env where
  "demo_env =
     \<lparr>export_public_key = (\<lambda>u. if u = None then Inr ''blob'' else Inl KeyError),
      load_public_key = (\<lambda>b c. Inr [''user_id'' \<mapsto> ''alice'']),
      from_public_key = (\<lambda>pk u. Inr \<lparr>f_keygrip = [CHR 0xAB], f_sign = (\<lambda>d. Inr (0, 0))\<rparr>)\<rparr>"

text \<open>
  An event that can occur while no signature is under way: no call to a collaborator, and
  nothing sent but the status line and the two fixed data lines.
\<close>

definition signature_free :: "event \<Rightarrow> bool" where
  "signature_free ev =
     (case ev of
        Send s \<Rightarrow> s = OK \<or> s = ''D 2.1.11'' @ [LF] \<or> s = ''D TREZOR'' @ [LF]
      | Export_public_key u \<Rightarrow> False
      | Load_public_key b c \<Rightarrow> False
      | From_public_key u \<Rightarrow> False
      | Sign d \<Rightarrow> False
      | Close_factory \<Rightarrow> False
      | _ \<Rightarrow> True)"

section \<open>Properties of the wire codec\<close>

lemma format_02X_percent: "format_02X 37 = ''25''"
  by (simp add: format_02X_def hex_digit_upper_def)

lemma format_02X_LF: "format_02X 10 = ''0A''"
  by (simp add: format_02X_def hex_digit_upper_def)

lemma format_02X_CR: "format_02X 13 = ''0D''"
  by (simp add: format_02X_def hex_digit_upper_def)

lemma replace_append: "replace (xs @ ys) c new = replace xs c new @ replace ys c new"
  by (induction xs) simp_all

lemma serialize_unfold:
  "serialize data = replace (replace (replace data (CHR ''%'') ''%25'') LF ''%0A'') CR ''%0D''"
  by (simp add: serialize_def format_02X_percent format_02X_LF format_02X_CR)

lemma serialize_Nil: "serialize [] = []"
  by (simp add: serialize_unfold)

lemma serialize_Cons:
  "serialize (x # xs) =
     (if x = CHR ''%'' then ''%25'' else if x = LF then ''%0A''
      else if x = CR then ''%0D'' else [x]) @ serialize xs"
  by (simp add: serialize_unfold)

lemma serialize_single_pass: "serialize data = Escape_spec data"
proof (induction data)
  case Nil
  show ?case by (simp add: serialize_Nil Escape_spec_def)
next
  case (Cons x xs)
  have "Escape_spec (x # xs) =
      (if x = CHR ''%'' then ''%25'' else if x = LF then ''%0A''
       else if x = CR then ''%0D'' else [x]) @ Escape_spec xs"
    by (simp add: Escape_spec_def format_02X_percent format_02X_LF format_02X_CR)
  with Cons show ?case by (simp only: serialize_Cons)
qed

text \<open>
  C4. For every input the three successive replacements of \<open>serialize\<close> agree with a
  single pass over the original text that turns each percent sign, line feed and carriage
  return into \<open>%25\<close>, \<open>%0A\<close> and \<open>%0D\<close> (two uppercase hexadecimal digits of the
  character code) and copies every other character; a percent sign written by a
  substitution is never escaped again. In particular the empty text stays empty, a percent
  sign becomes \<open>%25\<close>, and \<open>a\<close>, line feed, \<open>b\<close> becomes \<open>a%0Ab\<close>.
\<close>

theorem serialize_escapes_single_pass:
  "serialize data = Escape_spec data
   \<and> serialize data =
       concat (map (\<lambda>c. if c = CHR ''%'' then ''%25'' else if c = LF then ''%0A''
                          else if c = CR then ''%0D'' else [c]) data)
   \<and> serialize '''' = ''''
   \<and> serialize ''%'' = ''%25''
   \<and> serialize [CHR ''a'', LF, CHR ''b''] = ''a%0Ab''"
proof -
  have c1: "serialize data = Escape_spec data"
    by (rule serialize_single_pass)
  have c2: "serialize data =
       concat (map (\<lambda>c. if c = CHR ''%'' then ''%25'' else if c = LF then ''%0A''
                          else if c = CR then ''%0D'' else [c]) data)"
    by (induction data) (simp_all add: serialize_Nil serialize_Cons)
  have c3: "serialize [] = []"
    by (rule serialize_Nil)
  have c4: "serialize ''%'' = ''%25''"
    by (simp add: serialize_Nil serialize_Cons)
  have c5: "serialize [CHR ''a'', LF, CHR ''b''] = ''a%0Ab''"
    by (simp add: serialize_Nil serialize_Cons)
  from c1 c2 c3 c4 c5 show ?thesis
    by (intro conjI)
qed

text \<open>
  C9. For every input the output of \<open>serialize\<close> holds neither a line feed nor a
  carriage return, and neither does a data line \<open>D\<close>, space, escaped payload before its
  terminator: an escaped payload cannot end the line it is embedded in.
\<close>

theorem serialize_no_line_break:
  "LF \<notin> set (serialize data) \<and> CR \<notin> set (serialize data)
   \<and> LF \<notin> set (''D '' @ serialize data) \<and> CR \<notin> set (''D '' @ serialize data)"
  by (induction data) (simp_all add: serialize_Nil serialize_Cons)


text \<open>
  C5. For \<open>r = 0\<close> and \<open>s = 0\<close> the encoder gives, byte for byte, the framing
  \<open>(7:sig-val(5:ecdsa(1:r32:\<close>, 32 zero bytes, \<open>)(1:s32:\<close>, 32 zero bytes,
  \<open>)))\<close> and a line feed.
\<close>

theorem sig_encode_zero:
  "sig_encode 0 0 =
     Inr (''(7:sig-val(5:ecdsa(1:r32:'' @ replicate 32 (CHR 0x00) @ '')(1:s32:''
          @ replicate 32 (CHR 0x00) @ '')))'' @ [LF])"
  by code_simp

section \<open>Properties of the session\<close>

lemma handle_line_unfold:
  "handle_line env st line =
     (case split line of
        [] \<Rightarrow> ([], st, Inl IndexError)
      | command # args \<Rightarrow>
          (if command \<in> {''RESET'', ''OPTION'', ''HAVEKEY'', ''SETKEYDESC''} then
             ([Send OK], st, Inr Continue)
           else if command = ''GETINFO'' then
             ([Send (''D 2.1.11'' @ [LF]), Send OK], st, Inr Continue)
           else if command = ''AGENT_ID'' then
             ([Send (''D TREZOR'' @ [LF]), Send OK], st, Inr Continue)
           else if command = ''SIGKEY'' then
             (case args of
                [k] \<Rightarrow> ([Send OK], st\<lparr>keygrip := Some k\<rparr>, Inr Continue)
              | _ \<Rightarrow> ([], st, Inl ValueError))
           else if command = ''SETHASH'' then
             (case args of
                [a, d] \<Rightarrow> ([Send OK], st\<lparr>algo := Some a, digest := Some d\<rparr>, Inr Continue)
              | _ \<Rightarrow> ([], st, Inl ValueError))
           else if command = ''PKSIGN'' then
             (case pksign env (keygrip st) (digest st) (algo st) of
                (t, Inl e) \<Rightarrow> (t, st, Inl e)
              | (t, Inr sig) \<Rightarrow> (t @ [Send (''D '' @ sig), Send OK], st, Inr Continue))
           else
             ([Log_error ''unknown request: %r'' line], st, Inr Return)))"
  by (simp add: handle_line_def split: list.splits sum.splits prod.splits)

lemma split_not_Nil: "split line \<noteq> []"
  by (induction line) (simp_all split: list.splits)

lemma pksign_other_algo: "a \<noteq> Some ''8'' \<Longrightarrow> pksign env kg dg a = ([], Inl AssertionError)"
  by (simp add: pksign_def py_assert_def bnd_def)

text \<open>
  C8. From every session state and with every argument list, a turn of the loop on
  RESET, OPTION, HAVEKEY or SETKEYDESC leaves the three session variables as they were and
  its only effect is one \<open>OK\<close> line sent.
\<close>

theorem noop_commands_frame:
  assumes "split line = command # args"
    and "command \<in> {''RESET'', ''OPTION'', ''HAVEKEY'', ''SETKEYDESC''}"
  shows "handle_line env st line = ([Send OK], st, Inr Continue)"
  using assms by (simp add: handle_line_unfold)

theorem noop_commands_frame_witness:
  "split ''OPTION ttyname=/dev/pts/1'' = ''OPTION'' # [''ttyname=/dev/pts/1'']
   \<and> handle_line demo_env \<lparr>keygrip = Some ''AB'', digest = None, algo = Some ''8''\<rparr>
         ''OPTION ttyname=/dev/pts/1''
       = ([Send OK], \<lparr>keygrip = Some ''AB'', digest = None, algo = Some ''8''\<rparr>, Inr Continue)"
  using noop_commands_frame [of "''OPTION ttyname=/dev/pts/1''" "''OPTION''"
      "[''ttyname=/dev/pts/1'']" demo_env
      "\<lparr>keygrip = Some ''AB'', digest = None, algo = Some ''8''\<rparr>"]
  by simp

text \<open>
  C10. SIGKEY with a number of arguments other than one, and SETHASH with a number other
  than two, raise \<open>ValueError\<close> in the tuple assignment: no session variable has
  changed, nothing is sent for the command, and the session ends with the exception, no
  line after it being read.
\<close>

theorem wrong_arity_aborts:
  assumes "split line = command # args"
    and "(command = ''SIGKEY'' \<and> length args \<noteq> 1) \<or> (command = ''SETHASH'' \<and> length args \<noteq> 2)"
  shows "handle_line env st line = ([], st, Inl ValueError)
    \<and> handle_loop env st (line # rest) = ([Recv line], st, Inl ValueError)"
proof -
  have "handle_line env st line = ([], st, Inl ValueError)"
    using assms by (auto simp: handle_line_unfold split: list.splits)
  then show ?thesis by simp
qed

theorem wrong_arity_aborts_witness:
  "split ''SETHASH 8'' = ''SETHASH'' # [''8'']
   \<and> length [''8''] \<noteq> 2
   \<and> handle_line demo_env \<lparr>keygrip = Some ''AB'', digest = None, algo = None\<rparr> ''SETHASH 8''
       = ([], \<lparr>keygrip = Some ''AB'', digest = None, algo = None\<rparr>, Inl ValueError)
   \<and> handle_loop demo_env \<lparr>keygrip = Some ''AB'', digest = None, algo = None\<rparr>
         [''SETHASH 8'', ''PKSIGN'']
       = ([Recv ''SETHASH 8''], \<lparr>keygrip = Some ''AB'', digest = None, algo = None\<rparr>,
          Inl ValueError)"
  using wrong_arity_aborts [of "''SETHASH 8''" "''SETHASH''" "[''8'']" demo_env
      "\<lparr>keygrip = Some ''AB'', digest = None, algo = None\<rparr>" "[''PKSIGN'']"]
  by simp

lemma unknown_line:
  assumes "split line = command # args"
    and "command \<notin> {''RESET'', ''OPTION'', ''HAVEKEY'', ''SETKEYDESC'', ''GETINFO'',
                     ''AGENT_ID'', ''SIGKEY'', ''SETHASH'', ''PKSIGN''}"
  shows "handle_line env st line = ([Log_error ''unknown request: %r'' line], st, Inr Return)"
  using assms by (simp add: handle_line_unfold)

lemma unknown_cuts_loop:
  assumes "handle_line env st0 line = ([Log_error ''unknown request: %r'' line], st0, Inr Return)"
    and "\<And>st. handle_line env st line = ([Log_error ''unknown request: %r'' line], st, Inr Return)"
  shows "handle_loop env st (pre @ line # rest) = handle_loop env st (pre @ [line])"
proof (induction pre arbitrary: st)
  case Nil
  show ?case by (simp add: assms(2))
next
  case (Cons l pre)
  show ?case
    by (simp add: Cons.IH split: prod.splits sum.splits flow.splits)
qed

text \<open>
  C7. A line whose command token is none of the nine recognized ones is written to the
  error log and ends the session by a plain return: the turn sends nothing, no later line
  is read, and so nothing follows the \<open>OK\<close> that acknowledged the command before.
\<close>

theorem unknown_command_ends_session:
  assumes "split line = command # args"
    and "command \<notin> {''RESET'', ''OPTION'', ''HAVEKEY'', ''SETKEYDESC'', ''GETINFO'',
                     ''AGENT_ID'', ''SIGKEY'', ''SETHASH'', ''PKSIGN''}"
  shows "handle_line env st line = ([Log_error ''unknown request: %r'' line], st, Inr Return)
    \<and> handle_loop env st (line # rest) =
        ([Recv line, Log_error ''unknown request: %r'' line], st, Inr ())
    \<and> handle_connection env (pre @ line # rest) = handle_connection env (pre @ [line])"
proof -
  have u: "handle_line env s line = ([Log_error ''unknown request: %r'' line], s, Inr Return)"
    for s
    using assms by (rule unknown_line)
  have "handle_loop env s (pre @ line # rest) = handle_loop env s (pre @ [line])" for s
    using u u by (rule unknown_cuts_loop)
  then have "handle_connection env (pre @ line # rest) = handle_connection env (pre @ [line])"
    by (simp add: handle_connection_def)
  with u show ?thesis by simp
qed

theorem unknown_command_ends_session_witness:
  "split ''FOO bar'' = ''FOO'' # [''bar'']
   \<and> handle_connection demo_env [''GETINFO'', ''FOO bar'', ''GETINFO'']
       = ([Send OK, Recv ''GETINFO'', Send (''D 2.1.11'' @ [LF]), Send OK, Recv ''FOO bar'',
           Log_error ''unknown request: %r'' ''FOO bar''],
          \<lparr>keygrip = None, digest = None, algo = None\<rparr>, Inr ())"
proof -
  have "handle_connection demo_env ([''GETINFO''] @ ''FOO bar'' # [''GETINFO''])
      = handle_connection demo_env ([''GETINFO''] @ [''FOO bar''])"
    using unknown_command_ends_session [where line = "''FOO bar''" and command = "''FOO''"
        and args = "[''bar'']" and env = demo_env and pre = "[''GETINFO'']"
        and rest = "[''GETINFO'']"]
    by simp
  then show ?thesis
    by (simp add: handle_connection_def handle_line_unfold)
qed

section \<open>Properties of the signing procedure\<close>

lemma pksign_unfold:
  "pksign env kg dg al =
     (if al \<noteq> Some ''8'' then ([], Inl AssertionError)
      else case export_public_key env None of
        Inl e \<Rightarrow> ([Export_public_key None], Inl e)
      | Inr blob \<Rightarrow>
      (case load_public_key env blob True of
        Inl e \<Rightarrow> ([Export_public_key None, Load_public_key blob True], Inl e)
      | Inr pk \<Rightarrow>
      (case pk ''user_id'' of
        None \<Rightarrow> ([Export_public_key None, Load_public_key blob True], Inl KeyError)
      | Some uid \<Rightarrow>
      (case from_public_key env pk uid of
        Inl e \<Rightarrow>
          ([Export_public_key None, Load_public_key blob True, From_public_key uid], Inl e)
      | Inr f \<Rightarrow>
      (case unhexlify_opt kg of
        Inl e \<Rightarrow>
          ([Export_public_key None, Load_public_key blob True, From_public_key uid,
            Close_factory], Inl e)
      | Inr g \<Rightarrow>
      if f_keygrip f \<noteq> g then
          ([Export_public_key None, Load_public_key blob True, From_public_key uid,
            Close_factory], Inl AssertionError)
      else
      (case unhexlify_opt dg of
        Inl e \<Rightarrow>
          ([Export_public_key None, Load_public_key blob True, From_public_key uid,
            Close_factory], Inl e)
      | Inr d \<Rightarrow>
      (case f_sign f d of
        Inl e \<Rightarrow>
          ([Export_public_key None, Load_public_key blob True, From_public_key uid,
            Sign d, Close_factory], Inl e)
      | Inr (r, s) \<Rightarrow>
          ([Export_public_key None, Load_public_key blob True, From_public_key uid,
            Sign d, Close_factory], sig_encode r s))))))))"
  by (simp add: pksign_def bnd_def call_def lift_def py_assert_def subscript_def closing_def
      split: sum.splits option.splits prod.splits)

lemma pksign_sends_nothing: "Send x \<notin> set (fst (pksign env kg dg al))"
  by (simp add: pksign_unfold split: sum.splits option.splits prod.splits)

lemma pksign_registry_default: "Export_public_key u \<in> set (fst (pksign env kg dg al)) \<Longrightarrow> u = None"
  by (simp add: pksign_unfold split: sum.splits option.splits prod.splits if_splits)

lemma pksign_success:
  assumes "pksign env kg dg al = (t, Inr sig)"
  shows "\<exists>blob pk uid f d r s.
      al = Some ''8''
      \<and> export_public_key env None = Inr blob
      \<and> load_public_key env blob True = Inr pk
      \<and> pk ''user_id'' = Some uid
      \<and> from_public_key env pk uid = Inr f
      \<and> unhexlify_opt kg = Inr (f_keygrip f)
      \<and> unhexlify_opt dg = Inr d
      \<and> f_sign f d = Inr (r, s)
      \<and> sig_encode r s = Inr sig
      \<and> t = [Export_public_key None, Load_public_key blob True, From_public_key uid,
             Sign d, Close_factory]"
  using assms
  by (simp add: pksign_unfold split: sum.splits option.splits prod.splits if_splits)

lemma pksign_other_keygrip:
  assumes "pksign env kg dg al = (t, Inr sig)"
  shows "pksign env kg' dg al = (t, Inr sig)
    \<or> (\<exists>t' e. pksign env kg' dg al = (t', Inl e)
          \<and> e \<in> {TypeError, HexError, AssertionError} \<and> (\<forall>d. Sign d \<notin> set t'))"
proof -
  from pksign_success [OF assms] obtain blob pk uid f d r s where
    h: "al = Some ''8''" "export_public_key env None = Inr blob"
      "load_public_key env blob True = Inr pk" "pk ''user_id'' = Some uid"
      "from_public_key env pk uid = Inr f" "unhexlify_opt dg = Inr d"
      "f_sign f d = Inr (r, s)" "sig_encode r s = Inr sig"
      "t = [Export_public_key None, Load_public_key blob True, From_public_key uid,
             Sign d, Close_factory]"
    by blast
  have hex: "unhexlify hs = Inl e \<Longrightarrow> e = HexError" for hs e
    by (induction hs arbitrary: e rule: unhexlify.induct)
      (auto split: option.splits sum.splits)
  show ?thesis
  proof (cases "unhexlify_opt kg'")
    case (Inl e)
    then have "e = TypeError \<or> e = HexError"
      by (auto simp: unhexlify_opt_def split: option.splits dest: hex)
    with Inl h show ?thesis
      by (auto simp: pksign_unfold)
  next
    case (Inr g)
    with h show ?thesis
      by (auto simp: pksign_unfold)
  qed
qed

text \<open>
  C2. The signing procedure asks the key registry for the key of the default identity
  only (user identity \<^verbatim>\<open>None\<close>), whatever key identifier the session holds. The
  identifier from SIGKEY enters in one place, after the key is resolved: a signature is
  returned only if its hexadecimal decoding equals the keygrip of the resolved key.
  Another identifier therefore never changes the key or the signature; it can only make
  the assertion or the decoding fail, and then the device is not asked to sign.
\<close>

theorem pksign_resolves_default_identity:
  "(Export_public_key u \<in> set (fst (pksign env kg dg al)) \<longrightarrow> u = None)
   \<and> (pksign env kg dg al = (t, Inr sig) \<longrightarrow>
        (\<exists>blob pk uid f.
            export_public_key env None = Inr blob
            \<and> load_public_key env blob True = Inr pk
            \<and> pk ''user_id'' = Some uid
            \<and> from_public_key env pk uid = Inr f
            \<and> unhexlify_opt kg = Inr (f_keygrip f)
            \<and> take 3 t = [Export_public_key None, Load_public_key blob True,
                           From_public_key uid]))
   \<and> (pksign env kg dg al = (t, Inr sig) \<longrightarrow>
        pksign env kg' dg al = (t, Inr sig)
        \<or> (\<exists>t' e. pksign env kg' dg al = (t', Inl e)
              \<and> e \<in> {TypeError, HexError, AssertionError} \<and> (\<forall>d. Sign d \<notin> set t')))"
proof (intro conjI impI)
  assume "Export_public_key u \<in> set (fst (pksign env kg dg al))"
  then show "u = None" by (rule pksign_registry_default)
next
  assume "pksign env kg dg al = (t, Inr sig)"
  from pksign_success [OF this]
  show "\<exists>blob pk uid f.
            export_public_key env None = Inr blob
            \<and> load_public_key env blob True = Inr pk
            \<and> pk ''user_id'' = Some uid
            \<and> from_public_key env pk uid = Inr f
            \<and> unhexlify_opt kg = Inr (f_keygrip f)
            \<and> take 3 t = [Export_public_key None, Load_public_key blob True,
                           From_public_key uid]"
    by auto
next
  assume "pksign env kg dg al = (t, Inr sig)"
  then show "pksign env kg' dg al = (t, Inr sig)
        \<or> (\<exists>t' e. pksign env kg' dg al = (t', Inl e)
              \<and> e \<in> {TypeError, HexError, AssertionError} \<and> (\<forall>d. Sign d \<notin> set t'))"
    by (rule pksign_other_keygrip)
qed

theorem pksign_resolves_default_identity_witness:
  "pksign demo_env (Some ''AB'') (Some ''00'') (Some ''8'') =
     ([Export_public_key None, Load_public_key ''blob'' True, From_public_key ''alice'',
       Sign [CHR 0x00], Close_factory],
      Inr (''(7:sig-val(5:ecdsa(1:r32:'' @ replicate 32 (CHR 0x00) @ '')(1:s32:''
           @ replicate 32 (CHR 0x00) @ '')))'' @ [LF]))
   \<and> Export_public_key None \<in> set (fst (pksign demo_env (Some ''AB'') (Some ''00'') (Some ''8'')))
   \<and> unhexlify_opt (Some ''AB'') = Inr [CHR 0xAB]
   \<and> (pksign demo_env (Some ''AC'') (Some ''00'') (Some ''8'') =
        ([Export_public_key None, Load_public_key ''blob'' True, From_public_key ''alice'',
          Sign [CHR 0x00], Close_factory],
         Inr (''(7:sig-val(5:ecdsa(1:r32:'' @ replicate 32 (CHR 0x00) @ '')(1:s32:''
              @ replicate 32 (CHR 0x00) @ '')))'' @ [LF]))
      \<or> (\<exists>t' e. pksign demo_env (Some ''AC'') (Some ''00'') (Some ''8'') = (t', Inl e)
            \<and> e \<in> {TypeError, HexError, AssertionError} \<and> (\<forall>d. Sign d \<notin> set t')))"
proof -
  have e: "pksign demo_env (Some ''AB'') (Some ''00'') (Some ''8'') =
     ([Export_public_key None, Load_public_key ''blob'' True, From_public_key ''alice'',
       Sign [CHR 0x00], Close_factory],
      Inr (''(7:sig-val(5:ecdsa(1:r32:'' @ replicate 32 (CHR 0x00) @ '')(1:s32:''
           @ replicate 32 (CHR 0x00) @ '')))'' @ [LF]))"
    by code_simp
  have m: "Export_public_key None
      \<in> set (fst (pksign demo_env (Some ''AB'') (Some ''00'') (Some ''8'')))"
    by (simp add: e)
  have h: "unhexlify_opt (Some ''AB'') = Inr [CHR 0xAB]"
    by code_simp
  from e m h
    pksign_resolves_default_identity [where env = demo_env and kg = "Some ''AB''"
      and dg = "Some ''00''" and al = "Some ''8''" and kg' = "Some ''AC''" and u = None
      and t = "[Export_public_key None, Load_public_key ''blob'' True,
                From_public_key ''alice'', Sign [CHR 0x00], Close_factory]"
      and sig = "''(7:sig-val(5:ecdsa(1:r32:'' @ replicate 32 (CHR 0x00) @ '')(1:s32:''
           @ replicate 32 (CHR 0x00) @ '')))'' @ [LF]"]
  show ?thesis by blast
qed

section \<open>The algorithm check\<close>

lemma signature_free_simps:
  "signature_free (Recv l)" "signature_free (Send OK)"
  by (simp_all add: signature_free_def)

lemma handle_line_without_sethash:
  assumes "algo st \<noteq> Some ''8''"
    and "\<forall>as. split line \<noteq> ''SETHASH'' # as"
    and "handle_line env st line = (t, st', r)"
  shows "list_all signature_free t \<and> algo st' = algo st
    \<and> (r = Inr Continue \<or> r = Inr Return \<or> r = Inl AssertionError \<or> r = Inl ValueError)"
proof (cases "split line")
  case Nil
  then show ?thesis by (simp add: split_not_Nil)
next
  case (Cons command args)
  with assms(2) have ns: "command \<noteq> ''SETHASH''" by simp
  from assms(1) have pk: "pksign env (keygrip st) (digest st) (algo st) = ([], Inl AssertionError)"
    by (rule pksign_other_algo)
  from assms(3) Cons ns pk show ?thesis
    by (auto simp: handle_line_unfold signature_free_def split: if_splits list.splits)
qed

lemma handle_loop_without_sethash:
  assumes "\<forall>l\<in>set pre. \<forall>as. split l \<noteq> ''SETHASH'' # as"
    and "split line = ''PKSIGN'' # args"
    and "algo st \<noteq> Some ''8''"
    and "handle_loop env st (pre @ line # rest) = (t, st', r)"
  shows "list_all signature_free t \<and> algo st' = algo st
    \<and> (r = Inr () \<or> r = Inl AssertionError \<or> r = Inl ValueError)"
  using assms
proof (induction pre arbitrary: st t st' r)
  case Nil
  from Nil.prems(3) have "pksign env (keygrip st) (digest st) (algo st) = ([], Inl AssertionError)"
    by (rule pksign_other_algo)
  with Nil.prems(2) have "handle_line env st line = ([], st, Inl AssertionError)"
    by (simp add: handle_line_unfold)
  with Nil.prems(4) show ?case
    by (auto simp: signature_free_simps)
next
  case (Cons l pre)
  obtain t1 st1 r1 where hl: "handle_line env st l = (t1, st1, r1)"
    by (metis prod_cases3)
  from Cons.prems(1) have nl: "\<forall>as. split l \<noteq> ''SETHASH'' # as" by simp
  from handle_line_without_sethash [OF Cons.prems(3) nl hl]
  have f1: "list_all signature_free t1" and a1: "algo st1 = algo st"
    and r1: "r1 = Inr Continue \<or> r1 = Inr Return \<or> r1 = Inl AssertionError \<or> r1 = Inl ValueError"
    by simp_all
  show ?case
  proof (cases "r1 = Inr Continue")
    case True
    obtain t2 st2 r2 where h2: "handle_loop env st1 (pre @ line # rest) = (t2, st2, r2)"
      by (metis prod_cases3)
    from Cons.prems(1) have np: "\<forall>l\<in>set pre. \<forall>as. split l \<noteq> ''SETHASH'' # as" by simp
    from a1 Cons.prems(3) have a8: "algo st1 \<noteq> Some ''8''" by simp
    from Cons.IH [OF np Cons.prems(2) a8 h2]
    have "list_all signature_free t2" and "algo st2 = algo st1"
      and "r2 = Inr () \<or> r2 = Inl AssertionError \<or> r2 = Inl ValueError"
      by simp_all
    moreover from Cons.prems(4) hl True h2
    have "t = Recv l # t1 @ t2" and "st' = st2" and "r = r2"
      by simp_all
    ultimately show ?thesis
      using f1 a1 by (simp add: signature_free_simps)
  next
    case False
    with r1 Cons.prems(4) hl have "t = Recv l # t1" and "st' = st1"
      and "r = Inr () \<or> r = Inl AssertionError \<or> r = Inl ValueError"
      by auto
    with f1 a1 show ?thesis
      by (simp add: signature_free_simps)
  qed
qed

text \<open>
  C3. When the pending algorithm is anything but \<open>8\<close>, the unset case included, the
  signing procedure raises at its first statement: it makes no call to the registry or the
  device, the PKSIGN turn sends nothing and the session ends with the exception. A session
  in which PKSIGN comes before any SETHASH ends no later than at that PKSIGN, and all its
  events are free of signing: no call to a collaborator, nothing sent but status lines and
  the two fixed data lines.
\<close>

theorem pksign_requires_algorithm:
  "(al \<noteq> Some ''8'' \<longrightarrow> pksign env kg dg al = ([], Inl AssertionError))
   \<and> (algo st \<noteq> Some ''8'' \<and> split line = ''PKSIGN'' # args \<longrightarrow>
        handle_loop env st (line # rest) = ([Recv line], st, Inl AssertionError))
   \<and> ((\<forall>l\<in>set pre. \<forall>as. split l \<noteq> ''SETHASH'' # as) \<and> split line = ''PKSIGN'' # args \<longrightarrow>
        (case handle_connection env (pre @ line # rest) of
           (t, st', r) \<Rightarrow>
             list_all signature_free t \<and> algo st' = None
             \<and> (r = Inr () \<or> r = Inl AssertionError \<or> r = Inl ValueError)))"
proof (intro conjI impI)
  assume "al \<noteq> Some ''8''"
  then show "pksign env kg dg al = ([], Inl AssertionError)"
    by (rule pksign_other_algo)
next
  assume a: "algo st \<noteq> Some ''8'' \<and> split line = ''PKSIGN'' # args"
  then have "pksign env (keygrip st) (digest st) (algo st) = ([], Inl AssertionError)"
    by (simp add: pksign_other_algo)
  with a have "handle_line env st line = ([], st, Inl AssertionError)"
    by (simp add: handle_line_unfold)
  then show "handle_loop env st (line # rest) = ([Recv line], st, Inl AssertionError)"
    by simp
next
  assume a: "(\<forall>l\<in>set pre. \<forall>as. split l \<noteq> ''SETHASH'' # as) \<and> split line = ''PKSIGN'' # args"
  obtain t st' r where
    h: "handle_loop env \<lparr>keygrip = None, digest = None, algo = None\<rparr> (pre @ line # rest)
        = (t, st', r)"
    by (metis prod_cases3)
  have "list_all signature_free t \<and> algo st' = algo \<lparr>keygrip = None, digest = None, algo = None\<rparr>
    \<and> (r = Inr () \<or> r = Inl AssertionError \<or> r = Inl ValueError)"
    using a h by (intro handle_loop_without_sethash [where pre = pre and line = line]) simp_all
  with h show "case handle_connection env (pre @ line # rest) of
           (t, st', r) \<Rightarrow>
             list_all signature_free t \<and> algo st' = None
             \<and> (r = Inr () \<or> r = Inl AssertionError \<or> r = Inl ValueError)"
    by (simp add: handle_connection_def signature_free_simps)
qed

theorem pksign_requires_algorithm_witness:
  "Some ''10'' \<noteq> Some ''8''
   \<and> pksign demo_env (Some ''AB'') (Some ''00'') (Some ''10'') = ([], Inl AssertionError)
   \<and> split ''PKSIGN'' = ''PKSIGN'' # []
   \<and> handle_loop demo_env \<lparr>keygrip = Some ''AB'', digest = Some ''00'', algo = Some ''10''\<rparr>
        [''PKSIGN'', ''GETINFO'']
      = ([Recv ''PKSIGN''], \<lparr>keygrip = Some ''AB'', digest = Some ''00'', algo = Some ''10''\<rparr>,
         Inl AssertionError)
   \<and> split ''SIGKEY AB'' = [''SIGKEY'', ''AB'']
   \<and> handle_connection demo_env ([''SIGKEY AB''] @ ''PKSIGN'' # [''GETINFO''])
      = ([Send OK, Recv ''SIGKEY AB'', Send OK, Recv ''PKSIGN''],
         \<lparr>keygrip = Some ''AB'', digest = None, algo = None\<rparr>, Inl AssertionError)
   \<and> (case handle_connection demo_env ([''SIGKEY AB''] @ ''PKSIGN'' # [''GETINFO'']) of
        (t, st', r) \<Rightarrow>
          list_all signature_free t \<and> algo st' = None
          \<and> (r = Inr () \<or> r = Inl AssertionError \<or> r = Inl ValueError))"
proof -
  have s: "\<forall>l\<in>set [''SIGKEY AB'']. \<forall>as. split l \<noteq> ''SETHASH'' # as"
    by simp
  have c: "handle_connection demo_env ([''SIGKEY AB''] @ ''PKSIGN'' # [''GETINFO''])
      = ([Send OK, Recv ''SIGKEY AB'', Send OK, Recv ''PKSIGN''],
         \<lparr>keygrip = Some ''AB'', digest = None, algo = None\<rparr>, Inl AssertionError)"
    by (simp add: handle_connection_def handle_line_unfold pksign_other_algo)
  from s c
    pksign_requires_algorithm [where al = "Some ''10''" and env = demo_env
      and kg = "Some ''AB''" and dg = "Some ''00''"
      and st = "\<lparr>keygrip = Some ''AB'', digest = Some ''00'', algo = Some ''10''\<rparr>"
      and line = "''PKSIGN''" and args = "[]" and rest = "[''GETINFO'']"
      and pre = "[''SIGKEY AB'']"]
  show ?thesis by simp
qed

section \<open>Status lines\<close>

lemma handle_line_Continue:
  assumes "handle_line env st line = (t, st', Inr Continue)"
  shows "t = [Send OK]
    \<or> (\<exists>calls d. t = calls @ [Send (''D '' @ d), Send OK] \<and> (\<forall>x. Send x \<notin> set calls))"
proof (cases "split line")
  case Nil
  with assms show ?thesis by (simp add: handle_line_unfold)
next
  case (Cons command args)
  show ?thesis
  proof (cases "command = ''PKSIGN''")
    case True
    obtain calls r where p: "pksign env (keygrip st) (digest st) (algo st) = (calls, r)"
      by (cases "pksign env (keygrip st) (digest st) (algo st)")
    have "Send x \<notin> set calls" for x
      using pksign_sends_nothing [of x env "keygrip st" "digest st" "algo st"] p by simp
    moreover from assms Cons True p obtain sig where "t = calls @ [Send (''D '' @ sig), Send OK]"
      by (auto simp: handle_line_unfold split: sum.splits)
    ultimately show ?thesis by blast
  next
    case False
    with assms Cons have "t = [Send OK] \<or> t = [] @ [Send (''D '' @ ''2.1.11'' @ [LF]), Send OK]
        \<or> t = [] @ [Send (''D '' @ ''TREZOR'' @ [LF]), Send OK]"
      by (auto simp: handle_line_unfold split: if_splits list.splits)
    then show ?thesis by fastforce
  qed
qed

text \<open>
  C6. The first event of every session is the greeting \<open>OK\<close> line, sent before any
  line is read. Every turn of the loop that goes on to the next line ends with exactly one
  \<open>OK\<close> line: it is the only thing sent, or it follows at once the one data line of the
  turn. The no-op commands, GETINFO and AGENT_ID always end so, SIGKEY with one argument
  and SETHASH with two do, and PKSIGN does whenever the signing procedure returns a
  signature.
\<close>

theorem ok_status_lines:
  "(\<exists>t. fst (handle_connection env lines) = Send OK # t)
   \<and> (handle_line env st line = (t, st', Inr Continue) \<longrightarrow>
        t = [Send OK]
        \<or> (\<exists>calls d. t = calls @ [Send (''D '' @ d), Send OK] \<and> (\<forall>x. Send x \<notin> set calls)))
   \<and> (split line = command # args
        \<and> command \<in> {''RESET'', ''OPTION'', ''HAVEKEY'', ''SETKEYDESC''} \<longrightarrow>
        handle_line env st line = ([Send OK], st, Inr Continue))
   \<and> (split line = ''GETINFO'' # args \<longrightarrow>
        handle_line env st line = ([Send (''D 2.1.11'' @ [LF]), Send OK], st, Inr Continue))
   \<and> (split line = ''AGENT_ID'' # args \<longrightarrow>
        handle_line env st line = ([Send (''D TREZOR'' @ [LF]), Send OK], st, Inr Continue))
   \<and> (split line = [''SIGKEY'', k] \<longrightarrow>
        handle_line env st line = ([Send OK], st\<lparr>keygrip := Some k\<rparr>, Inr Continue))
   \<and> (split line = [''SETHASH'', a, d] \<longrightarrow>
        handle_line env st line =
          ([Send OK], st\<lparr>algo := Some a, digest := Some d\<rparr>, Inr Continue))
   \<and> (split line = ''PKSIGN'' # args
        \<and> pksign env (keygrip st) (digest st) (algo st) = (calls, Inr sig) \<longrightarrow>
        handle_line env st line = (calls @ [Send (''D '' @ sig), Send OK], st, Inr Continue))"
proof (intro conjI impI)
  show "\<exists>t. fst (handle_connection env lines) = Send OK # t"
    by (simp add: handle_connection_def split: prod.splits)
next
  assume "handle_line env st line = (t, st', Inr Continue)"
  then show "t = [Send OK]
        \<or> (\<exists>calls d. t = calls @ [Send (''D '' @ d), Send OK] \<and> (\<forall>x. Send x \<notin> set calls))"
    by (rule handle_line_Continue)
next
  assume "split line = command # args
        \<and> command \<in> {''RESET'', ''OPTION'', ''HAVEKEY'', ''SETKEYDESC''}"
  then show "handle_line env st line = ([Send OK], st, Inr Continue)"
    by (auto simp: handle_line_unfold)
next
  assume "split line = ''GETINFO'' # args"
  then show "handle_line env st line = ([Send (''D 2.1.11'' @ [LF]), Send OK], st, Inr Continue)"
    by (simp add: handle_line_unfold)
next
  assume "split line = ''AGENT_ID'' # args"
  then show "handle_line env st line = ([Send (''D TREZOR'' @ [LF]), Send OK], st, Inr Continue)"
    by (simp add: handle_line_unfold)
next
  assume "split line = [''SIGKEY'', k]"
  then show "handle_line env st line = ([Send OK], st\<lparr>keygrip := Some k\<rparr>, Inr Continue)"
    by (simp add: handle_line_unfold)
next
  assume "split line = [''SETHASH'', a, d]"
  then show "handle_line env st line =
          ([Send OK], st\<lparr>algo := Some a, digest := Some d\<rparr>, Inr Continue)"
    by (simp add: handle_line_unfold)
next
  assume "split line = ''PKSIGN'' # args
        \<and> pksign env (keygrip st) (digest st) (algo st) = (calls, Inr sig)"
  then show "handle_line env st line = (calls @ [Send (''D '' @ sig), Send OK], st, Inr Continue)"
    by (simp add: handle_line_unfold)
qed

theorem ok_status_lines_witness:
  "split ''PKSIGN'' = ''PKSIGN'' # []
   \<and> pksign demo_env (Some ''AB'') (Some ''00'') (Some ''8'') =
       ([Export_public_key None, Load_public_key ''blob'' True, From_public_key ''alice'',
         Sign [CHR 0x00], Close_factory],
        Inr (''(7:sig-val(5:ecdsa(1:r32:'' @ replicate 32 (CHR 0x00) @ '')(1:s32:''
             @ replicate 32 (CHR 0x00) @ '')))'' @ [LF]))
   \<and> handle_line demo_env \<lparr>keygrip = Some ''AB'', digest = Some ''00'', algo = Some ''8''\<rparr>
        ''PKSIGN''
      = ([Export_public_key None, Load_public_key ''blob'' True, From_public_key ''alice'',
          Sign [CHR 0x00], Close_factory,
          Send (''D (7:sig-val(5:ecdsa(1:r32:'' @ replicate 32 (CHR 0x00) @ '')(1:s32:''
             @ replicate 32 (CHR 0x00) @ '')))'' @ [LF]),
          Send OK],
         \<lparr>keygrip = Some ''AB'', digest = Some ''00'', algo = Some ''8''\<rparr>, Inr Continue)
   \<and> split ''GETINFO version'' = ''GETINFO'' # [''version'']
   \<and> handle_line demo_env \<lparr>keygrip = None, digest = None, algo = None\<rparr> ''GETINFO version''
      = ([Send (''D 2.1.11'' @ [LF]), Send OK],
         \<lparr>keygrip = None, digest = None, algo = None\<rparr>, Inr Continue)"
proof -
  have e: "pksign demo_env (Some ''AB'') (Some ''00'') (Some ''8'') =
       ([Export_public_key None, Load_public_key ''blob'' True, From_public_key ''alice'',
         Sign [CHR 0x00], Close_factory],
        Inr (''(7:sig-val(5:ecdsa(1:r32:'' @ replicate 32 (CHR 0x00) @ '')(1:s32:''
             @ replicate 32 (CHR 0x00) @ '')))'' @ [LF]))"
    by code_simp
  have s1: "split ''PKSIGN'' = ''PKSIGN'' # []"
    by simp
  have s2: "split ''GETINFO version'' = ''GETINFO'' # [''version'']"
    by simp
  from e s1
    ok_status_lines [where env = demo_env and line = "''PKSIGN''" and args = "[]"
      and st = "\<lparr>keygrip = Some ''AB'', digest = Some ''00'', algo = Some ''8''\<rparr>"
      and calls = "[Export_public_key None, Load_public_key ''blob'' True,
                    From_public_key ''alice'', Sign [CHR 0x00], Close_factory]"
      and sig = "''(7:sig-val(5:ecdsa(1:r32:'' @ replicate 32 (CHR 0x00) @ '')(1:s32:''
             @ replicate 32 (CHR 0x00) @ '')))'' @ [LF]"]
  have p: "handle_line demo_env \<lparr>keygrip = Some ''AB'', digest = Some ''00'', algo = Some ''8''\<rparr>
        ''PKSIGN''
      = ([Export_public_key None, Load_public_key ''blob'' True, From_public_key ''alice'',
          Sign [CHR 0x00], Close_factory,
          Send (''D (7:sig-val(5:ecdsa(1:r32:'' @ replicate 32 (CHR 0x00) @ '')(1:s32:''
             @ replicate 32 (CHR 0x00) @ '')))'' @ [LF]),
          Send OK],
         \<lparr>keygrip = Some ''AB'', digest = Some ''00'', algo = Some ''8''\<rparr>, Inr Continue)"
    by simp
  from s2
    ok_status_lines [where env = demo_env and line = "''GETINFO version''"
      and args = "[''version'']" and st = "\<lparr>keygrip = None, digest = None, algo = None\<rparr>"]
  have g: "handle_line demo_env \<lparr>keygrip = None, digest = None, algo = None\<rparr> ''GETINFO version''
      = ([Send (''D 2.1.11'' @ [LF]), Send OK],
         \<lparr>keygrip = None, digest = None, algo = None\<rparr>, Inr Continue)"
    by simp
  from e s1 p s2 g show ?thesis
    by (intro conjI)
qed

section \<open>Properties of the server loop\<close>

lemma main_stops_at_eof:
  assumes "snd (snd (handle_connection env c)) = Inl EOFError"
  shows "main env (pre @ c # cs) = main env (pre @ [c])"
proof (induction pre)
  case Nil
  from assms show ?case
    by (cases "handle_connection env c") (auto split: prod.splits)
next
  case (Cons p pre)
  then show ?case
    by (simp split: prod.splits sum.splits)
qed

lemma main_left_at_exception:
  assumes "snd (snd (handle_connection env c)) = Inl e"
  shows "snd (main env (pre @ c # cs)) \<noteq> Waiting"
proof (induction pre)
  case Nil
  from assms show ?case
    by (cases "handle_connection env c") (auto split: prod.splits)
next
  case (Cons p pre)
  then show ?case
    by (cases "handle_connection env p") (auto split: prod.splits sum.splits)
qed

text \<open>
  C1, as the code has it. When a session ends because the client disconnects during a
  read (\<open>EOFError\<close>), the connection is closed and the accept loop is left by
  \<^verbatim>\<open>break\<close>: \<open>main\<close> returns, and no connection after that one is accepted or
  served. The loop goes on to accept the next connection only after a session that ended
  by the handler's return.
\<close>

theorem accept_loop_left_at_eof:
  "(snd (snd (handle_connection env c)) = Inl EOFError \<longrightarrow>
      main env (c # cs) = (Accept # fst (handle_connection env c) @ [Close_conn], Stopped)
      \<and> main env (pre @ c # cs) = main env (pre @ [c])
      \<and> snd (main env (pre @ c # cs)) \<noteq> Waiting)
   \<and> (snd (snd (handle_connection env c)) = Inr () \<longrightarrow>
      main env (c # cs) =
        (Accept # fst (handle_connection env c) @ Close_conn # fst (main env cs),
         snd (main env cs)))"
proof (intro conjI impI)
  assume "snd (snd (handle_connection env c)) = Inl EOFError"
  then show "main env (c # cs) = (Accept # fst (handle_connection env c) @ [Close_conn], Stopped)"
    by (cases "handle_connection env c") auto
next
  assume "snd (snd (handle_connection env c)) = Inl EOFError"
  then show "main env (pre @ c # cs) = main env (pre @ [c])"
    by (rule main_stops_at_eof)
next
  assume "snd (snd (handle_connection env c)) = Inl EOFError"
  then show "snd (main env (pre @ c # cs)) \<noteq> Waiting"
    by (rule main_left_at_exception)
next
  assume "snd (snd (handle_connection env c)) = Inr ()"
  then show "main env (c # cs) =
        (Accept # fst (handle_connection env c) @ Close_conn # fst (main env cs),
         snd (main env cs))"
    by (cases "handle_connection env c") (auto split: prod.splits)
qed

theorem accept_loop_left_at_eof_witness:
  "snd (snd (handle_connection demo_env [''GETINFO''])) = Inl EOFError
   \<and> main demo_env ([[''FOO'']] @ [''GETINFO''] # [[''AGENT_ID'']])
      = main demo_env ([[''FOO'']] @ [[''GETINFO'']])
   \<and> main demo_env ([''GETINFO''] # [[''AGENT_ID'']])
      = ([Accept, Send OK, Recv ''GETINFO'', Send (''D 2.1.11'' @ [LF]), Send OK, Close_conn],
         Stopped)
   \<and> snd (snd (handle_connection demo_env [''FOO''])) = Inr ()
   \<and> main demo_env ([''FOO''] # [])
      = ([Accept, Send OK, Recv ''FOO'', Log_error ''unknown request: %r'' ''FOO'', Close_conn],
         Waiting)"
proof -
  have h1: "handle_connection demo_env [''GETINFO'']
      = ([Send OK, Recv ''GETINFO'', Send (''D 2.1.11'' @ [LF]), Send OK],
         \<lparr>keygrip = None, digest = None, algo = None\<rparr>, Inl EOFError)"
    by (simp add: handle_connection_def handle_line_unfold)
  have h2: "handle_connection demo_env [''FOO'']
      = ([Send OK, Recv ''FOO'', Log_error ''unknown request: %r'' ''FOO''],
         \<lparr>keygrip = None, digest = None, algo = None\<rparr>, Inr ())"
    by (simp add: handle_connection_def handle_line_unfold)
  from h1 accept_loop_left_at_eof [where env = demo_env and c = "[''GETINFO'']"
      and cs = "[[''AGENT_ID'']]" and pre = "[[''FOO'']]"]
  have a: "main demo_env ([[''FOO'']] @ [''GETINFO''] # [[''AGENT_ID'']])
      = main demo_env ([[''FOO'']] @ [[''GETINFO'']])"
    and b: "main demo_env ([''GETINFO''] # [[''AGENT_ID'']])
      = ([Accept, Send OK, Recv ''GETINFO'', Send (''D 2.1.11'' @ [LF]), Send OK, Close_conn],
         Stopped)"
    by simp_all
  from h2 accept_loop_left_at_eof [where env = demo_env and c = "[''FOO'']" and cs = "[]"]
  have c: "main demo_env ([''FOO''] # [])
      = ([Accept, Send OK, Recv ''FOO'', Log_error ''unknown request: %r'' ''FOO'', Close_conn],
         Waiting)"
    by simp
  from h1 h2 a b c show ?thesis
    by simp
qed

text \<open>
  The claim as stated fails: the first client disconnects after the greeting, and the
  second connection is never accepted, whereas a loop that went on would have greeted it.
\<close>

theorem accept_loop_continues_counterexample:
  "snd (snd (handle_connection demo_env [])) = Inl EOFError
   \<and> main demo_env [[], [''GETINFO'']] = ([Accept, Send OK, Close_conn], Stopped)
   \<and> main demo_env [[], [''GETINFO'']] \<noteq>
       (Accept # fst (handle_connection demo_env []) @ Close_conn
          # fst (main demo_env [[''GETINFO'']]),
        snd (main demo_env [[''GETINFO'']]))"
  by (simp add: handle_connection_def handle_line_unfold)

end
